theory Spec2Isabelle
  imports Main "HOL-Library.Sublist" "HOL-Library.AList" "HOL-Library.Monad_Syntax"
begin

section \<open>Exceptions\<close>

text \<open>
  Python exceptions are values: a class and the message the constructor was given.
  The classes the two source files raise, catch or can meet from the Python runtime are
  constructors of their own. \<open>OtherException n\<close> stands for any further class \<open>n\<close>
  derived from \<open>Exception\<close>; \<open>NonException n\<close> for a class derived from
  \<open>BaseException\<close> only (\<open>KeyboardInterrupt\<close>, \<open>SystemExit\<close>), which
  \<open>except Exception\<close> does not catch and a bare \<open>except:\<close> does.
  A call that raises returns \<open>Inl e\<close>, one that returns normally \<open>Inr v\<close>.
\<close>

datatype exn_class =
    NotImplementedError
  | ValueError
  | AttributeError
  | ADBConnectError
  | CriticalError
  | OtherException string
  | NonException string

datatype exn = Exn (cls: exn_class) (message: string)

text \<open>
  Modelled from the spec: \<open>lava_dispatcher/errors.py\<close>, which declares \<open>CriticalError\<close>
  and \<open>ADBConnectError\<close>, is not among the sources. The spec's error taxonomy has the
  connectivity failure and the job-fatal error as two kinds that a caller tells apart; they
  are two classes here, both derived from \<open>Exception\<close>. The two predicates say which
  raised values \<open>except ADBConnectError\<close> and \<open>except Exception\<close> catch.
\<close>

definition isinstance_ADBConnectError :: "exn \<Rightarrow> bool" where
  "isinstance_ADBConnectError e = (cls e = ADBConnectError)"

definition isinstance_Exception :: "exn \<Rightarrow> bool" where
  "isinstance_Exception e = (case cls e of NonException n \<Rightarrow> False | _ \<Rightarrow> True)"

section \<open>The console transcript sink: class SerialIO of device/target.py\<close>

text \<open>
  \<open>self.serialio\<close> is a \<open>cStringIO.StringIO()\<close>: the bytes written so far and whether it
  has been closed. Writing to it or reading it after \<open>close()\<close> raises \<open>ValueError\<close>.
\<close>

record StringIO =
  buf :: string
  buf_closed :: bool

text \<open>
  \<open>self.logfile\<close> is the file object handed to the constructor (\<open>sys.stdout\<close> in
  \<open>Target.__init__\<close>): the bytes written to it, how many of them have been flushed to
  the backing store, and whether it has been closed.
\<close>

record pyfile =
  log_data :: string
  log_flushed :: nat
  log_closed :: bool

record SerialIO =
  serialio :: StringIO
  logfile :: pyfile

definition closed_file_error :: exn where
  "closed_file_error = Exn ValueError ''I/O operation on closed file''"

definition StringIO_new :: StringIO where
  "StringIO_new = \<lparr>buf = [], buf_closed = False\<rparr>"

definition StringIO_write :: "StringIO \<Rightarrow> string \<Rightarrow> exn + StringIO" where
  "StringIO_write b data =
     (if buf_closed b then Inl closed_file_error else Inr (b\<lparr>buf := buf b @ data\<rparr>))"

definition StringIO_getvalue :: "StringIO \<Rightarrow> exn + string" where
  "StringIO_getvalue b = (if buf_closed b then Inl closed_file_error else Inr (buf b))"

definition StringIO_close :: "StringIO \<Rightarrow> StringIO" where
  "StringIO_close b = b\<lparr>buf_closed := True\<rparr>"

definition pyfile_write :: "pyfile \<Rightarrow> string \<Rightarrow> exn + pyfile" where
  "pyfile_write f data =
     (if log_closed f then Inl closed_file_error else Inr (f\<lparr>log_data := log_data f @ data\<rparr>))"

definition pyfile_flush :: "pyfile \<Rightarrow> exn + pyfile" where
  "pyfile_flush f =
     (if log_closed f then Inl closed_file_error
      else Inr (f\<lparr>log_flushed := length (log_data f)\<rparr>))"

definition pyfile_close :: "pyfile \<Rightarrow> pyfile" where
  "pyfile_close f =
     (if log_closed f then f else f\<lparr>log_flushed := length (log_data f), log_closed := True\<rparr>)"

text \<open>\<open>SerialIO.__init__(self, logfile)\<close>\<close>

definition SerialIO_init :: "pyfile \<Rightarrow> SerialIO" where
  "SerialIO_init lf = \<lparr>serialio = StringIO_new, logfile = lf\<rparr>"

text \<open>
  \<open>SerialIO.write(self, text)\<close>: \<open>self.serialio.write(text)\<close>, then
  \<open>self.logfile.write(text)\<close>. An exception of the first call leaves before the second
  is made; an exception of the second leaves with the buffer already extended.
\<close>

definition SerialIO_write :: "SerialIO \<Rightarrow> string \<Rightarrow> (exn + unit) \<times> SerialIO" where
  "SerialIO_write s data =
     (case StringIO_write (serialio s) data of
        Inl e \<Rightarrow> (Inl e, s)
      | Inr b \<Rightarrow>
          (let s1 = s\<lparr>serialio := b\<rparr> in
           case pyfile_write (logfile s1) data of
             Inl e \<Rightarrow> (Inl e, s1)
           | Inr f \<Rightarrow> (Inr (), s1\<lparr>logfile := f\<rparr>)))"

text \<open>\<open>SerialIO.close(self)\<close>: \<open>self.serialio.close()\<close>, then \<open>self.logfile.close()\<close>.\<close>

definition SerialIO_close :: "SerialIO \<Rightarrow> (exn + unit) \<times> SerialIO" where
  "SerialIO_close s =
     (Inr (), s\<lparr>serialio := StringIO_close (serialio s), logfile := pyfile_close (logfile s)\<rparr>)"

text \<open>\<open>SerialIO.flush(self)\<close>: \<open>self.logfile.flush()\<close>.\<close>

definition SerialIO_flush :: "SerialIO \<Rightarrow> (exn + unit) \<times> SerialIO" where
  "SerialIO_flush s =
     (case pyfile_flush (logfile s) of
        Inl e \<Rightarrow> (Inl e, s)
      | Inr f \<Rightarrow> (Inr (), s\<lparr>logfile := f\<rparr>))"

text \<open>\<open>SerialIO.getvalue(self)\<close>: \<open>return self.serialio.getvalue()\<close>.\<close>

definition SerialIO_getvalue :: "SerialIO \<Rightarrow> exn + string" where
  "SerialIO_getvalue s = StringIO_getvalue (serialio s)"

text \<open>
  A sink is open while neither of its two streams has been closed. A sequence of calls
  runs in order and stops at the first one that raises, as the exception would end the
  caller's block.
\<close>

definition sio_open :: "SerialIO \<Rightarrow> bool" where
  "sio_open s = (\<not> buf_closed (serialio s) \<and> \<not> log_closed (logfile s))"

fun SerialIO_writes :: "SerialIO \<Rightarrow> string list \<Rightarrow> (exn + unit) \<times> SerialIO" where
  "SerialIO_writes s [] = (Inr (), s)"
| "SerialIO_writes s (d # ds) =
     (case SerialIO_write s d of
        (Inl e, s') \<Rightarrow> (Inl e, s')
      | (Inr u, s') \<Rightarrow> SerialIO_writes s' ds)"

datatype sio_call = Write string | Flush

fun SerialIO_call :: "SerialIO \<Rightarrow> sio_call \<Rightarrow> (exn + unit) \<times> SerialIO" where
  "SerialIO_call s (Write d) = SerialIO_write s d"
| "SerialIO_call s Flush = SerialIO_flush s"

fun SerialIO_calls :: "SerialIO \<Rightarrow> sio_call list \<Rightarrow> (exn + unit) \<times> SerialIO" where
  "SerialIO_calls s [] = (Inr (), s)"
| "SerialIO_calls s (c # cs) =
     (case SerialIO_call s c of
        (Inl e, s') \<Rightarrow> (Inl e, s')
      | (Inr u, s') \<Rightarrow> SerialIO_calls s' cs)"

text \<open>The same calls with the flushes left out, and the data of the writes in call order.\<close>

fun without_flushes :: "sio_call list \<Rightarrow> sio_call list" where
  "without_flushes [] = []"
| "without_flushes (Write d # cs) = Write d # without_flushes cs"
| "without_flushes (Flush # cs) = without_flushes cs"

fun written_data :: "sio_call list \<Rightarrow> string list" where
  "written_data [] = []"
| "written_data (Write d # cs) = d # written_data cs"
| "written_data (Flush # cs) = written_data cs"

section \<open>The device abstraction: class Target of device/target.py\<close>

text \<open>
  The fields \<open>Target.__init__\<close> sets that the methods below and the boot actions touch.
  A live console session (what \<open>power_on\<close> returns) is a handle together with its Python
  truth value, which \<open>runner\<close> tests with \<open>if proc:\<close>.
\<close>

record Target =
  boot_options :: "string list"
  deployment_data :: "(string \<times> string) list"
  scratch_dir :: string
  sio :: SerialIO

datatype proc = Proc (handle: nat) (truthy: bool)

text \<open>
  The capability methods of the base class. Each body is a single \<open>raise
  NotImplementedError(name)\<close>; the result is paired with the target, which the call leaves
  as it found it. \<open>file_system\<close> is decorated with \<open>contextlib.contextmanager\<close> and has no
  \<open>yield\<close>, so calling it runs the body and raises at once.
\<close>

definition power_on :: "Target \<Rightarrow> (exn + proc) \<times> Target" where
  "power_on self = (Inl (Exn NotImplementedError ''power_on''), self)"

definition power_off :: "Target \<Rightarrow> proc \<Rightarrow> (exn + unit) \<times> Target" where
  "power_off self p = (Inl (Exn NotImplementedError ''power_off''), self)"

definition deploy_linaro :: "Target \<Rightarrow> string \<Rightarrow> string \<Rightarrow> (exn + unit) \<times> Target" where
  "deploy_linaro self hwpack rfs = (Inl (Exn NotImplementedError ''deploy_image''), self)"

definition deploy_android ::
  "Target \<Rightarrow> string \<Rightarrow> string \<Rightarrow> string \<Rightarrow> (exn + unit) \<times> Target" where
  "deploy_android self boot system userdata =
     (Inl (Exn NotImplementedError ''deploy_android_image''), self)"

definition deploy_linaro_prebuilt :: "Target \<Rightarrow> string \<Rightarrow> (exn + unit) \<times> Target" where
  "deploy_linaro_prebuilt self img =
     (Inl (Exn NotImplementedError ''deploy_linaro_prebuilt''), self)"

definition file_system :: "Target \<Rightarrow> string \<Rightarrow> string \<Rightarrow> (exn + string) \<times> Target" where
  "file_system self part directory = (Inl (Exn NotImplementedError ''file_system''), self)"

text \<open>Whether the outcome of a call is an exception of the given class.\<close>

definition raised :: "exn_class \<Rightarrow> (exn + 'a) \<times> 's \<Rightarrow> bool" where
  "raised c r = (case fst r of Inl e \<Rightarrow> cls e = c | Inr v \<Rightarrow> False)"

section \<open>The boot actions: actions/boot_control.py\<close>

text \<open>
  What an action's \<open>run\<close> reads and writes: the client with its device configuration
  (\<open>self.client.config\<close>) and its target (\<open>self.client.target_device\<close>), the result
  accumulator \<open>self.context.test_data\<close>, and the records handed to the \<open>logging\<close> module.
\<close>

datatype log_record = LogException string | LogInfo string

record DeviceConfig =
  boot_cmds :: "string list"
  android_wait_for_home_screen :: bool

record LavaClient =
  config :: DeviceConfig
  target_device :: Target

record world =
  client :: LavaClient
  test_data :: "(string \<times> string) list"
  logging :: "log_record list"

text \<open>
  Modelled from the spec: \<open>TestData.add_result\<close> of the job context is not among the
  sources. The spec's data model has TestData as an append-only result accumulator to which
  actions append (name, outcome) pairs.
\<close>

definition add_result ::
  "(string \<times> string) list \<Rightarrow> string \<Rightarrow> string \<Rightarrow> (string \<times> string) list" where
  "add_result td test_case_id outcome = td @ [(test_case_id, outcome)]"

text \<open>
  A keyword argument is \<open>None\<close> when the caller leaves it out and takes the default of the
  signature then.
\<close>

definition default_arg :: "'a \<Rightarrow> 'a option \<Rightarrow> 'a" where
  "default_arg d given = (case given of None \<Rightarrow> d | Some v \<Rightarrow> v)"

text \<open>
  The client's boot methods (\<open>client.boot_linaro_android_image\<close>,
  \<open>client.boot_linaro_image\<close>) are not among the sources either. They are parameters of the
  model: a function from the arguments and the state in which the call is made to
  \<open>Inr ()\<close> (the call returns) or \<open>Inl e\<close> (it raises \<open>e\<close>). The fields of the state
  are the action's to set; the call is taken to read them only.
\<close>

text \<open>
  \<open>cmd_boot_linaro_android_image.run(self, options=None, adb_check=False,
  wait_for_home_screen=True)\<close>, the statements before the \<open>try\<close>:
  \<open>if not options: options = []\<close>, then the two assignments to
  \<open>client.target_device.boot_options\<close> and \<open>client.config.android_wait_for_home_screen\<close>.
\<close>

definition cmd_boot_linaro_android_image_setup ::
  "world \<Rightarrow> string list option \<Rightarrow> bool option \<Rightarrow> world" where
  "cmd_boot_linaro_android_image_setup self options wait_for_home_screen =
     (let wait_for_home_screen = default_arg True wait_for_home_screen;
          options = (if options = None \<or> options = Some [] then [] else the options);
          s1 = self\<lparr>client := (client self)\<lparr>target_device :=
                 (target_device (client self))\<lparr>boot_options := options\<rparr>\<rparr>\<rparr>
      in s1\<lparr>client := (client s1)\<lparr>config :=
            (config (client s1))\<lparr>android_wait_for_home_screen := wait_for_home_screen\<rparr>\<rparr>\<rparr>)"

text \<open>
  The whole of \<open>run\<close>: the boot call inside \<open>try\<close>; \<open>except ADBConnectError as err\<close>
  logs and executes \<open>raise err\<close>; \<open>except Exception as e\<close> logs and raises
  \<open>CriticalError("Failed to boot test image.")\<close>; anything else leaves uncaught.
  \<open>"... %s" % err\<close> formats the exception as its message.
\<close>

definition cmd_boot_linaro_android_image_run ::
  "(bool \<Rightarrow> world \<Rightarrow> exn + unit) \<Rightarrow> world \<Rightarrow> string list option \<Rightarrow> bool option \<Rightarrow>
     bool option \<Rightarrow> (exn + unit) \<times> world" where
  "cmd_boot_linaro_android_image_run boot_linaro_android_image self options adb_check
       wait_for_home_screen =
     (let adb_check = default_arg False adb_check;
          s = cmd_boot_linaro_android_image_setup self options wait_for_home_screen
      in case boot_linaro_android_image adb_check s of
           Inr u \<Rightarrow> (Inr (), s)
         | Inl err \<Rightarrow>
             if isinstance_ADBConnectError err then
               (Inl err,
                s\<lparr>logging := logging s @
                  [LogException (''boot_linaro_android_image failed to create the adb connection: ''
                     @ message err)]\<rparr>)
             else if isinstance_Exception err then
               (Inl (Exn CriticalError ''Failed to boot test image.''),
                s\<lparr>logging := logging s @
                  [LogException (''boot_linaro_android_image failed: '' @ message err)]\<rparr>)
             else (Inl err, s))"

text \<open>
  \<open>cmd_boot_linaro_image.run(self, options=[], interactive_boot_cmds=False)\<close>, the
  statements before the \<open>try\<close>: the \<open>if interactive_boot_cmds:\<close> with its two
  assignments.
\<close>

definition cmd_boot_linaro_image_setup ::
  "world \<Rightarrow> string list option \<Rightarrow> bool option \<Rightarrow> world" where
  "cmd_boot_linaro_image_setup self options interactive_boot_cmds =
     (let options = default_arg [] options;
          interactive_boot_cmds = default_arg False interactive_boot_cmds
      in if interactive_boot_cmds then
           self\<lparr>client := (client self)\<lparr>config :=
             (config (client self))\<lparr>boot_cmds := options\<rparr>\<rparr>\<rparr>
         else
           self\<lparr>client := (client self)\<lparr>target_device :=
             (target_device (client self))\<lparr>boot_options := options\<rparr>\<rparr>\<rparr>)"

text \<open>
  The whole of \<open>run\<close>: \<open>status = 'pass'\<close>, the boot call inside \<open>try\<close>, the bare
  \<open>except:\<close> (it catches every exception) that logs, sets \<open>status = 'fail'\<close> and raises
  \<open>CriticalError\<close>, and the \<open>finally:\<close> that calls \<open>add_result("boot_image", status)\<close> on
  both paths before the function is left.
\<close>

definition cmd_boot_linaro_image_run ::
  "(world \<Rightarrow> exn + unit) \<Rightarrow> world \<Rightarrow> string list option \<Rightarrow> bool option \<Rightarrow>
     (exn + unit) \<times> world" where
  "cmd_boot_linaro_image_run boot_linaro_image self options interactive_boot_cmds =
     (let s = cmd_boot_linaro_image_setup self options interactive_boot_cmds;
          status = ''pass''
      in case boot_linaro_image s of
           Inr u \<Rightarrow>
             (Inr (), s\<lparr>test_data := add_result (test_data s) ''boot_image'' status\<rparr>)
         | Inl e \<Rightarrow>
             (let s1 = s\<lparr>logging := logging s @ [LogException ''boot_linaro_image failed'']\<rparr>;
                  status = ''fail''
              in (Inl (Exn CriticalError ''Failed to boot test image.''),
                  s1\<lparr>test_data := add_result (test_data s1) ''boot_image'' status\<rparr>)))"

text \<open>A state to run the actions in: a client fresh from its constructors, nothing recorded.\<close>

definition idle_world :: world where
  "idle_world =
     \<lparr>client =
        \<lparr>config = \<lparr>boot_cmds = [], android_wait_for_home_screen = False\<rparr>,
         target_device =
           \<lparr>boot_options = [], deployment_data = [], scratch_dir = ''/tmp/lava'',
            sio = SerialIO_init \<lparr>log_data = [], log_flushed = 0, log_closed = False\<rparr>\<rparr>\<rparr>,
      test_data = [], logging = []\<rparr>"

text \<open>
  Boot calls to run the actions with: one that raises a given exception whatever the state,
  one that returns, and one that returns only when the target's \<open>boot_options\<close> are the
  expected ones at the time of the call.
\<close>

definition android_boot_raising :: "exn \<Rightarrow> bool \<Rightarrow> world \<Rightarrow> exn + unit" where
  "android_boot_raising e adb_check s = Inl e"

definition image_boot_raising :: "exn \<Rightarrow> world \<Rightarrow> exn + unit" where
  "image_boot_raising e s = Inl e"

definition image_boot_returning :: "world \<Rightarrow> exn + unit" where
  "image_boot_returning s = Inr ()"

definition image_boot_expecting :: "string list \<Rightarrow> world \<Rightarrow> exn + unit" where
  "image_boot_expecting expected s =
     (if boot_options (target_device (client s)) = expected then Inr ()
      else Inl (Exn (OtherException ''RuntimeError'') ''unexpected boot options''))"

section \<open>The parameter schemas: module level of actions/boot_control.py\<close>

text \<open>
  The schemas are Python dictionaries, which are objects: a name or a dictionary entry
  holds a reference, and an assignment copies the reference, never the dictionary. The
  heap is the list of the dictionaries allocated so far; a reference is an index into it.
  A dictionary is the list of its entries. \<open>None\<close> stands for the \<open>KeyError\<close> or
  \<open>TypeError\<close> of a failed subscription.
\<close>

datatype pyval = PyBool bool | PyStr string | PyRef nat

type_synonym pydict = "(string \<times> pyval) list"

type_synonym pyheap = "pydict list"

definition new_dict :: "pyheap \<Rightarrow> pydict \<Rightarrow> pyval \<times> pyheap" where
  "new_dict h d = (PyRef (length h), h @ [d])"

definition deref :: "pyheap \<Rightarrow> pyval \<Rightarrow> pydict option" where
  "deref h v =
     (case v of PyRef a \<Rightarrow> (if a < length h then Some (h ! a) else None) | _ \<Rightarrow> None)"

text \<open>\<open>d[k]\<close> and \<open>d[k] = v\<close>\<close>

definition getitem :: "pyheap \<Rightarrow> pyval \<Rightarrow> string \<Rightarrow> pyval option" where
  "getitem h d k = do { entries \<leftarrow> deref h d; map_of entries k }"

definition setitem :: "pyheap \<Rightarrow> pyval \<Rightarrow> string \<Rightarrow> pyval \<Rightarrow> pyheap option" where
  "setitem h d k v =
     (case d of
        PyRef a \<Rightarrow> (if a < length h then Some (h[a := AList.update k v (h ! a)]) else None)
      | _ \<Rightarrow> None)"

text \<open>
  The statement \<open>parameters_schema['properties'][name] = {'default': False, 'optional':
  True}\<close> of the class bodies: the dictionary display is evaluated, then
  \<open>parameters_schema['properties']\<close>, then the entry is stored.
\<close>

definition add_property :: "pyheap \<Rightarrow> pyval \<Rightarrow> string \<Rightarrow> pyheap option" where
  "add_property h parameters_schema name = do {
     let (v, h1) = new_dict h [(''default'', PyBool False), (''optional'', PyBool True)];
     properties \<leftarrow> getitem h1 parameters_schema ''properties'';
     setitem h1 properties name v
   }"

text \<open>The assignment \<open>_boot_schema = {...}\<close>; the result is the reference bound to the name.\<close>

definition define_boot_schema :: "pyheap \<Rightarrow> pyval \<times> pyheap" where
  "define_boot_schema h0 =
     (let (items, h1) = new_dict h0 [(''type'', PyStr ''string'')];
          (options, h2) = new_dict h1
             [(''type'', PyStr ''array''), (''items'', items), (''optional'', PyBool True)];
          (properties, h3) = new_dict h2 [(''options'', options)]
      in new_dict h3
           [(''type'', PyStr ''object''), (''properties'', properties),
            (''additionalProperties'', PyBool False)])"

text \<open>
  The body of \<open>class cmd_boot_linaro_android_image\<close>: \<open>parameters_schema =
  _boot_schema\<close> and the two stores. The result is the class attribute
  \<open>parameters_schema\<close> and the heap.
\<close>

definition class_cmd_boot_linaro_android_image ::
  "pyheap \<Rightarrow> pyval \<Rightarrow> (pyval \<times> pyheap) option" where
  "class_cmd_boot_linaro_android_image h boot_schema = do {
     let parameters_schema = boot_schema;
     h1 \<leftarrow> add_property h parameters_schema ''adb_check'';
     h2 \<leftarrow> add_property h1 parameters_schema ''wait_for_home_screen'';
     Some (parameters_schema, h2)
   }"

text \<open>The body of \<open>class cmd_boot_linaro_image\<close>: the same assignment and one store.\<close>

definition class_cmd_boot_linaro_image ::
  "pyheap \<Rightarrow> pyval \<Rightarrow> (pyval \<times> pyheap) option" where
  "class_cmd_boot_linaro_image h boot_schema = do {
     let parameters_schema = boot_schema;
     h1 \<leftarrow> add_property h parameters_schema ''interactive_boot_cmds'';
     Some (parameters_schema, h1)
   }"

text \<open>
  Importing the module runs the three statements in order. \<open>heap_between\<close> keeps the heap
  as it was after the first class statement, \<open>heap\<close> is the heap once the module is loaded.
\<close>

record boot_control =
  heap_between :: pyheap
  heap :: pyheap
  boot_schema :: pyval
  android_parameters_schema :: pyval
  image_parameters_schema :: pyval

definition boot_control_load :: "boot_control option" where
  "boot_control_load = do {
     let (boot_schema, h0) = define_boot_schema [];
     (android, h1) \<leftarrow> class_cmd_boot_linaro_android_image h0 boot_schema;
     (img, h2) \<leftarrow> class_cmd_boot_linaro_image h1 boot_schema;
     Some \<lparr>heap_between = h1, heap = h2, boot_schema = boot_schema,
            android_parameters_schema = android, image_parameters_schema = img\<rparr>
   }"

text \<open>The fields a schema declares, and the \<open>default\<close> entry a schema gives a field.\<close>

definition property_names :: "pyheap \<Rightarrow> pyval \<Rightarrow> string list option" where
  "property_names h schema = do {
     properties \<leftarrow> getitem h schema ''properties'';
     entries \<leftarrow> deref h properties;
     Some (map fst entries)
   }"

definition schema_default :: "pyheap \<Rightarrow> pyval \<Rightarrow> string \<Rightarrow> pyval option" where
  "schema_default h schema name = do {
     properties \<leftarrow> getitem h schema ''properties'';
     field \<leftarrow> getitem h properties name;
     getitem h field ''default''
   }"

text \<open>
  Modelled from the spec: the validation of an action's parameters against its
  \<open>parameters_schema\<close> is done by \<open>BaseAction\<close> of \<open>lava_dispatcher.actions\<close>, which is
  not among the sources. Section 6 of the spec gives the schema format, \<open>{type: "object",
  properties: {field_name: {type, optional: bool, default: value}, ...},
  additionalProperties: bool}\<close>, and what is rejected: a missing required field, an
  unknown field when \<open>additionalProperties\<close> is false, and a wrong element type.
\<close>

datatype json = JNull | JBool bool | JString string | JArray "json list"

fun json_has_type :: "string \<Rightarrow> json \<Rightarrow> bool" where
  "json_has_type t JNull = (t = ''null'')"
| "json_has_type t (JBool b) = (t = ''boolean'')"
| "json_has_type t (JString s) = (t = ''string'')"
| "json_has_type t (JArray xs) = (t = ''array'')"

definition declared_type :: "pyheap \<Rightarrow> pyval \<Rightarrow> string option" where
  "declared_type h field =
     (case getitem h field ''type'' of Some (PyStr t) \<Rightarrow> Some t | _ \<Rightarrow> None)"

definition field_accepts :: "pyheap \<Rightarrow> pyval \<Rightarrow> json \<Rightarrow> bool" where
  "field_accepts h field v =
     ((case declared_type h field of None \<Rightarrow> True | Some t \<Rightarrow> json_has_type t v) \<and>
      (case v of
         JArray xs \<Rightarrow>
           (case getitem h field ''items'' of
              None \<Rightarrow> True
            | Some items \<Rightarrow>
                (case declared_type h items of
                   None \<Rightarrow> True
                 | Some t \<Rightarrow> list_all (json_has_type t) xs))
       | _ \<Rightarrow> True))"

definition field_required :: "pyheap \<Rightarrow> pyval \<Rightarrow> bool" where
  "field_required h field = (getitem h field ''optional'' \<noteq> Some (PyBool True))"

definition validate_parameters :: "pyheap \<Rightarrow> pyval \<Rightarrow> (string \<times> json) list \<Rightarrow> bool" where
  "validate_parameters h schema params =
     (case do { properties \<leftarrow> getitem h schema ''properties''; deref h properties } of
        None \<Rightarrow> False
      | Some declared \<Rightarrow>
          (if getitem h schema ''additionalProperties'' = Some (PyBool False)
           then list_all (\<lambda>(k, v). map_of declared k \<noteq> None) params else True) \<and>
          list_all (\<lambda>(k, field). if field_required h field then map_of params k \<noteq> None else True)
            declared \<and>
          list_all (\<lambda>(k, v). case map_of declared k of
                                None \<Rightarrow> True
                              | Some field \<Rightarrow> field_accepts h field v) params)"

section \<open>The scoped console session: Target.runner of device/target.py\<close>

text \<open>
  \<open>runner\<close> is a generator under \<open>contextlib.contextmanager\<close>. A use is
  \<open>with target.runner() as r: block\<close>: entering runs the generator up to its \<open>yield\<close>,
  the caller's block runs, and leaving resumes the generator at the \<open>yield\<close> (with the
  block's exception raised there, when it raised one), so the \<open>finally:\<close> runs on every
  path that entered the \<open>try\<close>.

  The calls \<open>runner\<close> makes are the concrete target's \<open>power_on\<close> and \<open>power_off\<close>, the
  import and the constructor of \<open>CommandRunner\<close> and its \<open>run\<close> (class of
  \<open>lava_dispatcher.client.base\<close>, not among the sources), and the caller's block. What each of them does, return or raise,
  is given by the environment; the model records the calls in the order they are made.
\<close>

record runner_env =
  power_on_result :: "exn + proc"
  command_runner_result :: "exn + unit"
  block_result :: "exn + unit"
  sync_result :: "exn + unit"
  power_off_result :: "exn + unit"

datatype event =
    PowerOn
  | NewCommandRunner proc
  | Block
  | Logging log_record
  | RunnerRun string nat
  | PowerOff proc

text \<open>
  The \<open>finally:\<close> block, given the values of the local variables \<open>proc\<close> (\<open>None\<close> until
  \<open>power_on\<close> has returned) and \<open>runner\<close> (bound to a \<open>CommandRunner\<close> or still
  \<open>None\<close>): the calls it makes, and \<open>Inl e\<close> when it raises \<open>e\<close>. \<open>runner.run\<close> on
  \<open>None\<close> raises \<open>AttributeError\<close>. A statement that raises ends the block: the
  statements after it are not executed.
\<close>

definition runner_finally :: "runner_env \<Rightarrow> proc option \<Rightarrow> bool \<Rightarrow> event list \<times> (exn + unit)" where
  "runner_finally env proc runner_bound =
     (case proc of
        None \<Rightarrow> ([], Inr ())
      | Some p \<Rightarrow>
          if \<not> truthy p then ([], Inr ())
          else
            (let info = Logging (LogInfo ''attempting a filesystem sync before power_off'') in
             if \<not> runner_bound then
               ([info], Inl (Exn AttributeError ''NoneType object has no attribute run''))
             else
               (case sync_result env of
                  Inl e \<Rightarrow> ([info, RunnerRun ''sync'' 5], Inl e)
                | Inr u \<Rightarrow>
                    (case power_off_result env of
                       Inl e \<Rightarrow> ([info, RunnerRun ''sync'' 5, PowerOff p], Inl e)
                     | Inr u \<Rightarrow> ([info, RunnerRun ''sync'' 5, PowerOff p], Inr ())))))"

text \<open>
  An exception raised inside \<open>finally:\<close> replaces the one that was on its way out;
  otherwise the pending outcome stands.
\<close>

definition after_finally :: "exn + unit \<Rightarrow> exn + unit \<Rightarrow> exn + unit" where
  "after_finally pending fin = (case fin of Inl e \<Rightarrow> Inl e | Inr u \<Rightarrow> pending)"

text \<open>
  One whole use of \<open>with target.runner() as r: block\<close>: the calls made, in order, and how
  the \<open>with\<close> statement ends. When \<open>power_on\<close> or the constructor raises, the block is
  never entered.
\<close>

definition runner_scope :: "runner_env \<Rightarrow> event list \<times> (exn + unit)" where
  "runner_scope env =
     (case power_on_result env of
        Inl e \<Rightarrow>
          (let (calls, fin) = runner_finally env None False
           in ([PowerOn] @ calls, after_finally (Inl e) fin))
      | Inr p \<Rightarrow>
          (case command_runner_result env of
             Inl e \<Rightarrow>
               (let (calls, fin) = runner_finally env (Some p) False
                in ([PowerOn, NewCommandRunner p] @ calls, after_finally (Inl e) fin))
           | Inr u \<Rightarrow>
               (let (calls, fin) = runner_finally env (Some p) True
                in ([PowerOn, NewCommandRunner p, Block] @ calls,
                    after_finally (block_result env) fin))))"

section \<open>Properties of the console transcript sink\<close>

lemma write_open:
  "sio_open s \<Longrightarrow>
   SerialIO_write s d =
     (Inr (), s\<lparr>serialio := (serialio s)\<lparr>buf := buf (serialio s) @ d\<rparr>,
               logfile := (logfile s)\<lparr>log_data := log_data (logfile s) @ d\<rparr>\<rparr>)"
  by (simp add: sio_open_def SerialIO_write_def StringIO_write_def pyfile_write_def Let_def)

lemma flush_open:
  "sio_open s \<Longrightarrow>
   SerialIO_flush s =
     (Inr (), s\<lparr>logfile := (logfile s)\<lparr>log_flushed := length (log_data (logfile s))\<rparr>\<rparr>)"
  by (simp add: sio_open_def SerialIO_flush_def pyfile_flush_def)

lemma write_closed_buffer:
  "buf_closed (serialio s) \<Longrightarrow> SerialIO_write s d = (Inl closed_file_error, s)"
  by (simp add: SerialIO_write_def StringIO_write_def)

lemma write_closed_logfile:
  "\<not> buf_closed (serialio s) \<Longrightarrow> log_closed (logfile s) \<Longrightarrow>
   SerialIO_write s d =
     (Inl closed_file_error, s\<lparr>serialio := (serialio s)\<lparr>buf := buf (serialio s) @ d\<rparr>\<rparr>)"
  by (simp add: SerialIO_write_def StringIO_write_def pyfile_write_def Let_def)

lemma init_open: "\<not> log_closed lf \<Longrightarrow> sio_open (SerialIO_init lf)"
  by (simp add: sio_open_def SerialIO_init_def StringIO_new_def)

lemma init_buf: "buf (serialio (SerialIO_init lf)) = []"
  by (simp add: SerialIO_init_def StringIO_new_def)

lemma getvalue_open: "sio_open s \<Longrightarrow> SerialIO_getvalue s = Inr (buf (serialio s))"
  by (simp add: sio_open_def SerialIO_getvalue_def StringIO_getvalue_def)

lemma writes_open:
  "sio_open s \<Longrightarrow>
   fst (SerialIO_writes s ds) = Inr () \<and>
   sio_open (snd (SerialIO_writes s ds)) \<and>
   buf (serialio (snd (SerialIO_writes s ds))) = buf (serialio s) @ concat ds \<and>
   log_data (logfile (snd (SerialIO_writes s ds))) = log_data (logfile s) @ concat ds"
proof (induction ds arbitrary: s)
  case Nil
  then show ?case by simp
next
  case (Cons d ds)
  let ?s1 = "s\<lparr>serialio := (serialio s)\<lparr>buf := buf (serialio s) @ d\<rparr>,
               logfile := (logfile s)\<lparr>log_data := log_data (logfile s) @ d\<rparr>\<rparr>"
  have step: "SerialIO_writes s (d # ds) = SerialIO_writes ?s1 ds"
    using Cons.prems by (simp add: write_open)
  have "sio_open ?s1"
    using Cons.prems by (simp add: sio_open_def)
  from Cons.IH [OF this] show ?case
    unfolding step by simp
qed

lemma written_data_without_flushes: "written_data (without_flushes cs) = written_data cs"
  by (induction cs rule: without_flushes.induct) simp_all

lemma calls_open:
  "sio_open s \<Longrightarrow>
   fst (SerialIO_calls s cs) = Inr () \<and>
   sio_open (snd (SerialIO_calls s cs)) \<and>
   serialio (snd (SerialIO_calls s cs)) =
     (serialio s)\<lparr>buf := buf (serialio s) @ concat (written_data cs)\<rparr>"
proof (induction cs arbitrary: s)
  case Nil
  then show ?case by simp
next
  case (Cons c cs)
  show ?case
  proof (cases c)
    case (Write d)
    let ?s1 = "s\<lparr>serialio := (serialio s)\<lparr>buf := buf (serialio s) @ d\<rparr>,
               logfile := (logfile s)\<lparr>log_data := log_data (logfile s) @ d\<rparr>\<rparr>"
    have "sio_open ?s1"
      using Cons.prems by (simp add: sio_open_def)
    from Cons.IH [OF this] show ?thesis
      using Cons.prems Write by (simp add: write_open)
  next
    case Flush
    let ?s1 = "s\<lparr>logfile := (logfile s)\<lparr>log_flushed := length (log_data (logfile s))\<rparr>\<rparr>"
    have "sio_open ?s1"
      using Cons.prems by (simp add: sio_open_def)
    from Cons.IH [OF this] show ?thesis
      using Cons.prems Flush by (simp add: flush_open)
  qed
qed

lemma flush_frame:
  "serialio (snd (SerialIO_flush s)) = serialio s \<and>
   log_data (logfile (snd (SerialIO_flush s))) = log_data (logfile s) \<and>
   log_closed (logfile (snd (SerialIO_flush s))) = log_closed (logfile s)"
  by (simp add: SerialIO_flush_def pyfile_flush_def)

text \<open>
  Claim C5. On a sink that has not been closed, write(a) followed by write(b) both return
  normally and getvalue() then returns what the buffer held before, followed by a, followed
  by b; on a sink fresh from its constructor that is exactly a + b. In general, after any
  sequence of writes getvalue() returns the concatenation of the written data in write
  order, and the log stream has received the same bytes. Each write extends the in-memory
  buffer first and the log stream second: when the log stream refuses the write, the buffer
  already holds the data, and when the buffer refuses it, the log stream is not written.
\<close>

theorem getvalue_concatenates_writes:
  "(sio_open s \<longrightarrow>
      fst (SerialIO_write s a) = Inr () \<and>
      fst (SerialIO_write (snd (SerialIO_write s a)) b) = Inr () \<and>
      SerialIO_getvalue (snd (SerialIO_write (snd (SerialIO_write s a)) b)) =
        Inr (buf (serialio s) @ a @ b) \<and>
      fst (SerialIO_writes s ds) = Inr () \<and>
      SerialIO_getvalue (snd (SerialIO_writes s ds)) = Inr (buf (serialio s) @ concat ds) \<and>
      log_data (logfile (snd (SerialIO_writes s ds))) = log_data (logfile s) @ concat ds) \<and>
   (\<not> log_closed lf \<longrightarrow>
      SerialIO_getvalue (snd (SerialIO_write (snd (SerialIO_write (SerialIO_init lf) a)) b)) =
        Inr (a @ b) \<and>
      fst (SerialIO_writes (SerialIO_init lf) ds) = Inr () \<and>
      SerialIO_getvalue (snd (SerialIO_writes (SerialIO_init lf) ds)) = Inr (concat ds)) \<and>
   (\<not> buf_closed (serialio s) \<and> log_closed (logfile s) \<longrightarrow>
      SerialIO_write s a =
        (Inl closed_file_error, s\<lparr>serialio := (serialio s)\<lparr>buf := buf (serialio s) @ a\<rparr>\<rparr>)) \<and>
   (buf_closed (serialio s) \<longrightarrow> SerialIO_write s a = (Inl closed_file_error, s))"
proof -
  have two: "fst (SerialIO_write s a) = Inr () \<and>
      fst (SerialIO_write (snd (SerialIO_write s a)) b) = Inr () \<and>
      SerialIO_getvalue (snd (SerialIO_write (snd (SerialIO_write s a)) b)) =
        Inr (buf (serialio s) @ a @ b)"
    if "sio_open s" for s
  proof -
    let ?s1 = "s\<lparr>serialio := (serialio s)\<lparr>buf := buf (serialio s) @ a\<rparr>,
               logfile := (logfile s)\<lparr>log_data := log_data (logfile s) @ a\<rparr>\<rparr>"
    have o1: "sio_open ?s1"
      using that by (simp add: sio_open_def)
    have w1: "SerialIO_write s a = (Inr (), ?s1)"
      using that by (rule write_open)
    show ?thesis
      using that o1 by (simp add: w1 write_open [OF o1] SerialIO_getvalue_def
          StringIO_getvalue_def sio_open_def)
  qed
  have many: "fst (SerialIO_writes s ds) = Inr () \<and>
      SerialIO_getvalue (snd (SerialIO_writes s ds)) = Inr (buf (serialio s) @ concat ds) \<and>
      log_data (logfile (snd (SerialIO_writes s ds))) = log_data (logfile s) @ concat ds"
    if "sio_open s" for s
    using writes_open [OF that, of ds] by (simp add: getvalue_open)
  have fresh: "SerialIO_getvalue (snd (SerialIO_write (snd (SerialIO_write (SerialIO_init lf) a)) b)) =
        Inr (a @ b) \<and>
      fst (SerialIO_writes (SerialIO_init lf) ds) = Inr () \<and>
      SerialIO_getvalue (snd (SerialIO_writes (SerialIO_init lf) ds)) = Inr (concat ds)"
    if "\<not> log_closed lf"
    using two [OF init_open [OF that]] many [OF init_open [OF that]] by (simp add: init_buf)
  from two many fresh write_closed_logfile [of s a] write_closed_buffer [of s a]
  show ?thesis by blast
qed

theorem getvalue_concatenates_writes_witness:
  "sio_open (SerialIO_init \<lparr>log_data = [], log_flushed = 0, log_closed = False\<rparr>) \<and>
   SerialIO_getvalue
     (snd (SerialIO_write
        (snd (SerialIO_write (SerialIO_init \<lparr>log_data = [], log_flushed = 0, log_closed = False\<rparr>)
           ''ab'')) ''cd'')) = Inr ''abcd'' \<and>
   SerialIO_getvalue
     (snd (SerialIO_writes (SerialIO_init \<lparr>log_data = [], log_flushed = 0, log_closed = False\<rparr>)
        [''ab'', ''cd'', ''e''])) = Inr ''abcde'' \<and>
   SerialIO_write
     \<lparr>serialio = \<lparr>buf = ''x'', buf_closed = False\<rparr>,
      logfile = \<lparr>log_data = ''x'', log_flushed = 1, log_closed = True\<rparr>\<rparr> ''ab'' =
     (Inl closed_file_error,
      \<lparr>serialio = \<lparr>buf = ''xab'', buf_closed = False\<rparr>,
       logfile = \<lparr>log_data = ''x'', log_flushed = 1, log_closed = True\<rparr>\<rparr>)"
proof -
  let ?lf = "\<lparr>log_data = [], log_flushed = 0, log_closed = False\<rparr>"
  let ?s = "\<lparr>serialio = \<lparr>buf = ''x'', buf_closed = False\<rparr>,
      logfile = \<lparr>log_data = ''x'', log_flushed = 1, log_closed = True\<rparr>\<rparr>"
  have o: "sio_open (SerialIO_init ?lf)"
    by (simp add: sio_open_def SerialIO_init_def StringIO_new_def)
  have c: "\<not> log_closed ?lf" by simp
  from o c
    getvalue_concatenates_writes [of "SerialIO_init ?lf" "''ab''" "''cd''" "[''ab'', ''cd'', ''e'']" ?lf]
    getvalue_concatenates_writes [of ?s "''ab''" "''cd''" "[]" ?lf]
  show ?thesis by (auto simp del: SerialIO_writes.simps)
qed

text \<open>
  Claim C8. flush() touches the log stream only: for every sink, open or not, the in-memory
  buffer, the transcript that getvalue() returns and the bytes of the log stream are the
  same after the call as before; on an open sink it returns normally and marks all bytes
  of the log stream as flushed. For any interleaving of writes and flushes on an open sink
  every call returns normally and getvalue() returns the transcript that the same writes
  without the flushes produce.
\<close>

theorem flush_leaves_transcript:
  "serialio (snd (SerialIO_flush s)) = serialio s \<and>
   SerialIO_getvalue (snd (SerialIO_flush s)) = SerialIO_getvalue s \<and>
   log_data (logfile (snd (SerialIO_flush s))) = log_data (logfile s) \<and>
   (sio_open s \<longrightarrow>
      fst (SerialIO_flush s) = Inr () \<and>
      log_flushed (logfile (snd (SerialIO_flush s))) = length (log_data (logfile s)) \<and>
      fst (SerialIO_calls s cs) = Inr () \<and>
      fst (SerialIO_calls s (without_flushes cs)) = Inr () \<and>
      SerialIO_getvalue (snd (SerialIO_calls s cs)) =
        SerialIO_getvalue (snd (SerialIO_calls s (without_flushes cs))) \<and>
      SerialIO_getvalue (snd (SerialIO_calls s cs)) =
        Inr (buf (serialio s) @ concat (written_data cs)))"
proof -
  have a: "serialio (snd (SerialIO_flush s)) = serialio s"
    and b: "log_data (logfile (snd (SerialIO_flush s))) = log_data (logfile s)"
    using flush_frame [of s] by simp_all
  have c: "SerialIO_getvalue (snd (SerialIO_flush s)) = SerialIO_getvalue s"
    by (simp add: SerialIO_getvalue_def a)
  have d: "fst (SerialIO_flush s) = Inr () \<and>
      log_flushed (logfile (snd (SerialIO_flush s))) = length (log_data (logfile s))"
    if "sio_open s"
    using that by (simp add: flush_open)
  have e: "fst (SerialIO_calls s cs) = Inr () \<and>
      fst (SerialIO_calls s (without_flushes cs)) = Inr () \<and>
      SerialIO_getvalue (snd (SerialIO_calls s cs)) =
        SerialIO_getvalue (snd (SerialIO_calls s (without_flushes cs))) \<and>
      SerialIO_getvalue (snd (SerialIO_calls s cs)) =
        Inr (buf (serialio s) @ concat (written_data cs))"
    if "sio_open s"
    using that calls_open [of s cs] calls_open [of s "without_flushes cs"]
    by (simp add: SerialIO_getvalue_def StringIO_getvalue_def written_data_without_flushes
        sio_open_def)
  from a b c d e show ?thesis by blast
qed

theorem flush_leaves_transcript_witness:
  "sio_open (SerialIO_init \<lparr>log_data = [], log_flushed = 0, log_closed = False\<rparr>) \<and>
   SerialIO_getvalue (snd (SerialIO_calls (SerialIO_init \<lparr>log_data = [], log_flushed = 0, log_closed = False\<rparr>)
      [Write ''ab'', Flush, Write ''c'', Flush])) = Inr ''abc'' \<and>
   SerialIO_getvalue (snd (SerialIO_calls (SerialIO_init \<lparr>log_data = [], log_flushed = 0, log_closed = False\<rparr>)
      (without_flushes [Write ''ab'', Flush, Write ''c'', Flush]))) = Inr ''abc''"
proof -
  let ?s = "SerialIO_init \<lparr>log_data = [], log_flushed = 0, log_closed = False\<rparr>"
  have o: "sio_open ?s"
    by (simp add: sio_open_def SerialIO_init_def StringIO_new_def)
  have b: "buf (serialio ?s) = []"
    by (simp add: SerialIO_init_def StringIO_new_def)
  from o b flush_leaves_transcript [of ?s "[Write ''ab'', Flush, Write ''c'', Flush]"]
  show ?thesis by (auto simp del: SerialIO_calls.simps without_flushes.simps)
qed

section \<open>Unsupported capabilities\<close>

text \<open>
  Claim C6. Each of the six capability operations of the base Target (power_on, power_off,
  deploy_linaro, deploy_android, deploy_linaro_prebuilt, file_system), for every target
  and every argument, fails with the code's not-supported error, NotImplementedError, and
  attempts nothing else: the target is left exactly as it was.
\<close>

theorem base_target_capabilities_not_supported:
  "raised NotImplementedError (power_on t) \<and> snd (power_on t) = t \<and>
   raised NotImplementedError (power_off t p) \<and> snd (power_off t p) = t \<and>
   raised NotImplementedError (deploy_linaro t hwpack rfs) \<and>
     snd (deploy_linaro t hwpack rfs) = t \<and>
   raised NotImplementedError (deploy_android t boot system userdata) \<and>
     snd (deploy_android t boot system userdata) = t \<and>
   raised NotImplementedError (deploy_linaro_prebuilt t img) \<and>
     snd (deploy_linaro_prebuilt t img) = t \<and>
   raised NotImplementedError (file_system t part directory) \<and>
     snd (file_system t part directory) = t"
  by (simp add: raised_def power_on_def power_off_def deploy_linaro_def deploy_android_def
      deploy_linaro_prebuilt_def file_system_def)

section \<open>Properties of the boot actions\<close>

lemma image_setup_frame:
  "test_data (cmd_boot_linaro_image_setup self options i) = test_data self \<and>
   logging (cmd_boot_linaro_image_setup self options i) = logging self"
  by (simp add: cmd_boot_linaro_image_setup_def Let_def)

lemma android_setup_frame:
  "test_data (cmd_boot_linaro_android_image_setup self options w) = test_data self \<and>
   logging (cmd_boot_linaro_android_image_setup self options w) = logging self"
  by (simp add: cmd_boot_linaro_android_image_setup_def Let_def)

text \<open>
  Claim C2. For every call of cmd_boot_linaro_image.run: when the boot call, made in the
  state the assignments leave, returns normally, run returns normally and TestData is what
  it was with the single record ("boot_image", "pass") appended; when the boot call raises
  any exception e, run raises CriticalError and TestData, in the state the exception leaves
  behind, is what it was with the single record ("boot_image", "fail") appended.
\<close>

theorem boot_image_records_outcome:
  "(boot (cmd_boot_linaro_image_setup self options i) = Inr () \<longrightarrow>
      fst (cmd_boot_linaro_image_run boot self options i) = Inr () \<and>
      test_data (snd (cmd_boot_linaro_image_run boot self options i)) =
        test_data self @ [(''boot_image'', ''pass'')]) \<and>
   (boot (cmd_boot_linaro_image_setup self options i) = Inl e \<longrightarrow>
      fst (cmd_boot_linaro_image_run boot self options i) =
        Inl (Exn CriticalError ''Failed to boot test image.'') \<and>
      test_data (snd (cmd_boot_linaro_image_run boot self options i)) =
        test_data self @ [(''boot_image'', ''fail'')])"
  using image_setup_frame [of self options i]
  by (simp add: cmd_boot_linaro_image_run_def add_result_def Let_def)

theorem boot_image_records_outcome_witness:
  "fst (cmd_boot_linaro_image_run image_boot_returning idle_world (Some [''console=ttyS0''])
          (Some False)) = Inr () \<and>
   test_data (snd (cmd_boot_linaro_image_run image_boot_returning idle_world
          (Some [''console=ttyS0'']) (Some False))) = [(''boot_image'', ''pass'')] \<and>
   fst (cmd_boot_linaro_image_run
          (image_boot_raising (Exn (NonException ''KeyboardInterrupt'') []))
          idle_world (Some [''console=ttyS0'']) (Some False)) =
     Inl (Exn CriticalError ''Failed to boot test image.'') \<and>
   test_data (snd (cmd_boot_linaro_image_run
          (image_boot_raising (Exn (NonException ''KeyboardInterrupt'') [])) idle_world
          (Some [''console=ttyS0'']) (Some False))) = [(''boot_image'', ''fail'')]"
proof -
  let ?k = "Exn (NonException ''KeyboardInterrupt'') []"
  have t: "test_data idle_world = []"
    by (simp add: idle_world_def)
  have r: "image_boot_returning
             (cmd_boot_linaro_image_setup idle_world (Some [''console=ttyS0'']) (Some False)) =
           Inr ()"
    by (simp add: image_boot_returning_def)
  have f: "image_boot_raising ?k
             (cmd_boot_linaro_image_setup idle_world (Some [''console=ttyS0'']) (Some False)) =
           Inl ?k"
    by (simp add: image_boot_raising_def)
  from t r f
    boot_image_records_outcome [of image_boot_returning idle_world "Some [''console=ttyS0'']"
      "Some False" ?k]
    boot_image_records_outcome [of "image_boot_raising ?k" idle_world
      "Some [''console=ttyS0'']" "Some False" ?k]
  show ?thesis by simp
qed

text \<open>
  Claim C3. For every call of cmd_boot_linaro_android_image.run in which the boot call
  raises an ADBConnectError e: run raises that same e, so its class is still
  ADBConnectError and not CriticalError, and the state it leaves has one more log record,
  the exception record naming the failed adb connection and the message of e, written
  before e leaves.
\<close>

theorem android_boot_reraises_adb_connect_error:
  assumes "boot (default_arg False adb_check)
             (cmd_boot_linaro_android_image_setup self options w) = Inl e"
    and "isinstance_ADBConnectError e"
  shows "cmd_boot_linaro_android_image_run boot self options adb_check w =
           (Inl e,
            (cmd_boot_linaro_android_image_setup self options w)
              \<lparr>logging := logging self @
                 [LogException (''boot_linaro_android_image failed to create the adb connection: ''
                    @ message e)]\<rparr>) \<and>
         cls e = ADBConnectError \<and> cls e \<noteq> CriticalError"
  using assms android_setup_frame [of self options w]
  by (simp add: cmd_boot_linaro_android_image_run_def Let_def isinstance_ADBConnectError_def)

theorem android_boot_reraises_adb_connect_error_witness:
  "fst (cmd_boot_linaro_android_image_run
          (android_boot_raising (Exn ADBConnectError ''unable to connect'')) idle_world
          (Some [''-s'']) (Some True) None) = Inl (Exn ADBConnectError ''unable to connect'') \<and>
   logging (snd (cmd_boot_linaro_android_image_run
          (android_boot_raising (Exn ADBConnectError ''unable to connect'')) idle_world
          (Some [''-s'']) (Some True) None)) =
     [LogException
        ''boot_linaro_android_image failed to create the adb connection: unable to connect'']"
proof -
  let ?e = "Exn ADBConnectError ''unable to connect''"
  have a: "android_boot_raising ?e (default_arg False (Some True))
             (cmd_boot_linaro_android_image_setup idle_world (Some [''-s'']) None) = Inl ?e"
    by (simp add: android_boot_raising_def)
  have b: "isinstance_ADBConnectError ?e"
    by (simp add: isinstance_ADBConnectError_def)
  have l: "logging idle_world = []"
    by (simp add: idle_world_def)
  from l android_boot_reraises_adb_connect_error
    [of "android_boot_raising ?e" "Some True" idle_world "Some [''-s'']" None, OF a b]
  show ?thesis by simp
qed

text \<open>
  Claim C4, as stated, fails: when the boot call raises a RuntimeError with the message
  "fastboot timed out", run raises CriticalError("Failed to boot test image."), a value
  made of its class and this fixed message alone, and the original message is no part of
  it.
\<close>

theorem android_boot_critical_error_drops_message:
  "fst (cmd_boot_linaro_android_image_run
          (android_boot_raising (Exn (OtherException ''RuntimeError'') ''fastboot timed out''))
          idle_world (Some [''-s'']) (Some True) None) =
     Inl (Exn CriticalError ''Failed to boot test image.'') \<and>
   \<not> sublist ''fastboot timed out'' ''Failed to boot test image.''"
  by (simp add: cmd_boot_linaro_android_image_run_def Let_def isinstance_ADBConnectError_def
      isinstance_Exception_def default_arg_def android_boot_raising_def sublist_code
      prefix_code)

text \<open>
  Claim C4, amended. For every call of cmd_boot_linaro_android_image.run in which the boot
  call raises an exception e that is an instance of Exception and not an ADBConnectError,
  run raises CriticalError with the fixed message "Failed to boot test image."; the
  message of e goes to the log, in the exception record "boot_linaro_android_image
  failed: " followed by that message, and the raised error does not carry it. An exception
  that is not an instance of Exception is neither logged nor converted: it leaves run as it
  is.
\<close>

theorem android_boot_wraps_other_exceptions:
  "(boot (default_arg False adb_check)
        (cmd_boot_linaro_android_image_setup self options w) = Inl e \<and>
      \<not> isinstance_ADBConnectError e \<and> isinstance_Exception e \<longrightarrow>
    cmd_boot_linaro_android_image_run boot self options adb_check w =
      (Inl (Exn CriticalError ''Failed to boot test image.''),
       (cmd_boot_linaro_android_image_setup self options w)
         \<lparr>logging := logging self @
            [LogException (''boot_linaro_android_image failed: '' @ message e)]\<rparr>)) \<and>
   (boot (default_arg False adb_check)
        (cmd_boot_linaro_android_image_setup self options w) = Inl e \<and>
      \<not> isinstance_Exception e \<longrightarrow>
    cmd_boot_linaro_android_image_run boot self options adb_check w =
      (Inl e, cmd_boot_linaro_android_image_setup self options w))"
  using android_setup_frame [of self options w]
  by (auto simp add: cmd_boot_linaro_android_image_run_def Let_def
      isinstance_ADBConnectError_def isinstance_Exception_def)

theorem android_boot_wraps_other_exceptions_witness:
  "fst (cmd_boot_linaro_android_image_run
          (android_boot_raising (Exn (OtherException ''RuntimeError'') ''fastboot timed out''))
          idle_world (Some [''-s'']) (Some True) None) =
     Inl (Exn CriticalError ''Failed to boot test image.'') \<and>
   logging (snd (cmd_boot_linaro_android_image_run
          (android_boot_raising (Exn (OtherException ''RuntimeError'') ''fastboot timed out''))
          idle_world (Some [''-s'']) (Some True) None)) =
     [LogException ''boot_linaro_android_image failed: fastboot timed out''] \<and>
   fst (cmd_boot_linaro_android_image_run
          (android_boot_raising (Exn (NonException ''KeyboardInterrupt'') []))
          idle_world (Some [''-s'']) (Some True) None) =
     Inl (Exn (NonException ''KeyboardInterrupt'') [])"
proof -
  let ?e = "Exn (OtherException ''RuntimeError'') ''fastboot timed out''"
  let ?k = "Exn (NonException ''KeyboardInterrupt'') []"
  have a: "android_boot_raising ?e (default_arg False (Some True))
             (cmd_boot_linaro_android_image_setup idle_world (Some [''-s'']) None) = Inl ?e"
    "android_boot_raising ?k (default_arg False (Some True))
             (cmd_boot_linaro_android_image_setup idle_world (Some [''-s'']) None) = Inl ?k"
    by (simp_all add: android_boot_raising_def)
  have b: "\<not> isinstance_ADBConnectError ?e" "isinstance_Exception ?e"
    "\<not> isinstance_Exception ?k"
    by (simp_all add: isinstance_ADBConnectError_def isinstance_Exception_def)
  have l: "logging idle_world = []"
    by (simp add: idle_world_def)
  from a b l
    android_boot_wraps_other_exceptions [of "android_boot_raising ?e" "Some True" idle_world
      "Some [''-s'']" None ?e]
    android_boot_wraps_other_exceptions [of "android_boot_raising ?k" "Some True" idle_world
      "Some [''-s'']" None ?k]
  show ?thesis by simp
qed

text \<open>
  Claim C7. For every call of cmd_boot_linaro_image.run: with interactive_boot_cmds true,
  the state in which the boot call is made has config.boot_cmds equal to the options
  parameter and the whole target, boot_options included, as before; otherwise it has the
  target's boot_options equal to the options parameter and the whole configuration,
  boot_cmds included, as before. The assignment comes before the boot call: run succeeds
  exactly when the boot call made in that state returns, run consults the boot call in
  that state only, and the client it leaves behind is the one of that state.
\<close>

theorem boot_image_assigns_options:
  "(default_arg False i \<longrightarrow>
      boot_cmds (config (client (cmd_boot_linaro_image_setup self options i))) =
        default_arg [] options \<and>
      target_device (client (cmd_boot_linaro_image_setup self options i)) =
        target_device (client self)) \<and>
   (\<not> default_arg False i \<longrightarrow>
      boot_options (target_device (client (cmd_boot_linaro_image_setup self options i))) =
        default_arg [] options \<and>
      config (client (cmd_boot_linaro_image_setup self options i)) = config (client self)) \<and>
   client (snd (cmd_boot_linaro_image_run boot self options i)) =
     client (cmd_boot_linaro_image_setup self options i) \<and>
   (fst (cmd_boot_linaro_image_run boot self options i) = Inr ()) =
     (boot (cmd_boot_linaro_image_setup self options i) = Inr ()) \<and>
   (boot (cmd_boot_linaro_image_setup self options i) =
      boot' (cmd_boot_linaro_image_setup self options i) \<longrightarrow>
    cmd_boot_linaro_image_run boot self options i =
      cmd_boot_linaro_image_run boot' self options i)"
proof -
  have a: "default_arg False i \<Longrightarrow>
      boot_cmds (config (client (cmd_boot_linaro_image_setup self options i))) =
        default_arg [] options \<and>
      target_device (client (cmd_boot_linaro_image_setup self options i)) =
        target_device (client self)"
    by (simp add: cmd_boot_linaro_image_setup_def Let_def)
  have b: "\<not> default_arg False i \<Longrightarrow>
      boot_options (target_device (client (cmd_boot_linaro_image_setup self options i))) =
        default_arg [] options \<and>
      config (client (cmd_boot_linaro_image_setup self options i)) = config (client self)"
    by (simp add: cmd_boot_linaro_image_setup_def Let_def)
  have c: "client (snd (cmd_boot_linaro_image_run boot self options i)) =
      client (cmd_boot_linaro_image_setup self options i)"
    by (simp add: cmd_boot_linaro_image_run_def Let_def split: sum.splits)
  have d: "(fst (cmd_boot_linaro_image_run boot self options i) = Inr ()) =
      (boot (cmd_boot_linaro_image_setup self options i) = Inr ())"
    by (simp add: cmd_boot_linaro_image_run_def Let_def split: sum.splits)
  have e: "boot (cmd_boot_linaro_image_setup self options i) =
      boot' (cmd_boot_linaro_image_setup self options i) \<Longrightarrow>
    cmd_boot_linaro_image_run boot self options i =
      cmd_boot_linaro_image_run boot' self options i"
    by (simp add: cmd_boot_linaro_image_run_def Let_def)
  from a b c d e show ?thesis by blast
qed

theorem boot_image_assigns_options_witness:
  "boot_cmds (config (client (cmd_boot_linaro_image_setup idle_world
      (Some [''setenv bootargs x'', ''boot'']) (Some True)))) = [''setenv bootargs x'', ''boot''] \<and>
   boot_options (target_device (client (cmd_boot_linaro_image_setup idle_world
      (Some [''setenv bootargs x'', ''boot'']) (Some True)))) = [] \<and>
   boot_options (target_device (client (cmd_boot_linaro_image_setup idle_world
      (Some [''console=ttyS0'']) None))) = [''console=ttyS0''] \<and>
   boot_cmds (config (client (cmd_boot_linaro_image_setup idle_world
      (Some [''console=ttyS0'']) None))) = [] \<and>
   fst (cmd_boot_linaro_image_run (image_boot_expecting [''console=ttyS0''])
      idle_world (Some [''console=ttyS0'']) None) = Inr ()"
proof -
  let ?boot = "image_boot_expecting [''console=ttyS0'']"
  have i: "default_arg False (Some True)" "\<not> default_arg False None"
    "default_arg [] (Some [''setenv bootargs x'', ''boot'']) = [''setenv bootargs x'', ''boot'']"
    "default_arg [] (Some [''console=ttyS0'']) = [''console=ttyS0'']"
    by (simp_all add: default_arg_def)
  have w: "boot_options (target_device (client idle_world)) = []"
    "boot_cmds (config (client idle_world)) = []"
    by (simp_all add: idle_world_def)
  from i w
    boot_image_assigns_options [of "Some True" idle_world "Some [''setenv bootargs x'', ''boot'']"
      ?boot ?boot]
    boot_image_assigns_options [of None idle_world "Some [''console=ttyS0'']" ?boot ?boot]
  show ?thesis by (simp add: image_boot_expecting_def)
qed

section \<open>Properties of the parameter schemas\<close>

lemma boot_control_load_value:
  "boot_control_load =
     Some \<lparr>heap_between =
       [[(''type'', PyStr ''string'')],
        [(''type'', PyStr ''array''), (''items'', PyRef 0), (''optional'', PyBool True)],
        [(''options'', PyRef 1), (''adb_check'', PyRef 4), (''wait_for_home_screen'', PyRef 5)],
        [(''type'', PyStr ''object''), (''properties'', PyRef 2),
         (''additionalProperties'', PyBool False)],
        [(''default'', PyBool False), (''optional'', PyBool True)],
        [(''default'', PyBool False), (''optional'', PyBool True)]],
      heap =
       [[(''type'', PyStr ''string'')],
        [(''type'', PyStr ''array''), (''items'', PyRef 0), (''optional'', PyBool True)],
        [(''options'', PyRef 1), (''adb_check'', PyRef 4), (''wait_for_home_screen'', PyRef 5),
         (''interactive_boot_cmds'', PyRef 6)],
        [(''type'', PyStr ''object''), (''properties'', PyRef 2),
         (''additionalProperties'', PyBool False)],
        [(''default'', PyBool False), (''optional'', PyBool True)],
        [(''default'', PyBool False), (''optional'', PyBool True)],
        [(''default'', PyBool False), (''optional'', PyBool True)]],
      boot_schema = PyRef 3, android_parameters_schema = PyRef 3,
      image_parameters_schema = PyRef 3\<rparr>"
  by (simp add: boot_control_load_def define_boot_schema_def
      class_cmd_boot_linaro_android_image_def class_cmd_boot_linaro_image_def add_property_def
      new_dict_def getitem_def setitem_def deref_def Let_def)

text \<open>
  Claim C9. Loading the module succeeds, and then: the parameters_schema of
  cmd_boot_linaro_android_image and that of cmd_boot_linaro_image are the very reference
  bound to _boot_schema, one dictionary object. After the first class statement that
  object declares options, adb_check and wait_for_home_screen; once the module is loaded
  it declares interactive_boot_cmds as well, for both classes, with additionalProperties
  false in both. Consequently the validation of the Android boot action accepts
  interactive_boot_cmds, which only the other action's class body adds (it was rejected
  before that class body ran), the validation of the test-image boot action accepts
  adb_check and wait_for_home_screen, and a field that no class body adds is still
  rejected.
\<close>

theorem boot_schemas_are_one_object:
  "(case boot_control_load of
      None \<Rightarrow> False
    | Some m \<Rightarrow>
        android_parameters_schema m = boot_schema m \<and>
        image_parameters_schema m = boot_schema m \<and>
        property_names (heap_between m) (android_parameters_schema m) =
          Some [''options'', ''adb_check'', ''wait_for_home_screen''] \<and>
        property_names (heap m) (android_parameters_schema m) =
          Some [''options'', ''adb_check'', ''wait_for_home_screen'', ''interactive_boot_cmds''] \<and>
        property_names (heap m) (image_parameters_schema m) =
          Some [''options'', ''adb_check'', ''wait_for_home_screen'', ''interactive_boot_cmds''] \<and>
        getitem (heap m) (android_parameters_schema m) ''additionalProperties'' =
          Some (PyBool False) \<and>
        getitem (heap m) (image_parameters_schema m) ''additionalProperties'' =
          Some (PyBool False) \<and>
        validate_parameters (heap m) (android_parameters_schema m)
          [(''interactive_boot_cmds'', JBool True)] \<and>
        validate_parameters (heap m) (image_parameters_schema m)
          [(''adb_check'', JBool True), (''wait_for_home_screen'', JBool False)] \<and>
        \<not> validate_parameters (heap_between m) (android_parameters_schema m)
          [(''interactive_boot_cmds'', JBool True)] \<and>
        \<not> validate_parameters (heap m) (android_parameters_schema m)
          [(''reboot'', JBool True)])"
  by (simp add: boot_control_load_value property_names_def getitem_def deref_def
      validate_parameters_def field_required_def field_accepts_def declared_type_def)

lemma android_run_wait_flag:
  "android_wait_for_home_screen (config (client
     (snd (cmd_boot_linaro_android_image_run boot self options adb_check w)))) =
   default_arg True w"
  by (simp add: cmd_boot_linaro_android_image_run_def cmd_boot_linaro_android_image_setup_def
      Let_def split: sum.splits)

text \<open>
  Claim C10. For every call of cmd_boot_linaro_android_image.run that leaves
  wait_for_home_screen out, whatever the other arguments and whatever the boot call does,
  config.android_wait_for_home_screen is True in the state in which the boot call is made
  and in the state run leaves behind: the default of the signature. The schema the class
  declares gives the same field the default False.
\<close>

theorem android_wait_default_is_true:
  "android_wait_for_home_screen (config (client
     (cmd_boot_linaro_android_image_setup self options None))) = True \<and>
   android_wait_for_home_screen (config (client
     (snd (cmd_boot_linaro_android_image_run boot self options adb_check None)))) = True \<and>
   (case boot_control_load of
      None \<Rightarrow> False
    | Some m \<Rightarrow>
        schema_default (heap m) (android_parameters_schema m) ''wait_for_home_screen'' =
          Some (PyBool False))"
proof -
  have a: "android_wait_for_home_screen (config (client
     (cmd_boot_linaro_android_image_setup self options None))) = True"
    by (simp add: cmd_boot_linaro_android_image_setup_def default_arg_def Let_def)
  have b: "android_wait_for_home_screen (config (client
     (snd (cmd_boot_linaro_android_image_run boot self options adb_check None)))) = True"
    by (simp add: android_run_wait_flag default_arg_def)
  have c: "(case boot_control_load of
      None \<Rightarrow> False
    | Some m \<Rightarrow>
        schema_default (heap m) (android_parameters_schema m) ''wait_for_home_screen'' =
          Some (PyBool False))"
    by (simp add: boot_control_load_value schema_default_def getitem_def deref_def)
  from a b c show ?thesis by simp
qed

section \<open>Properties of the scoped console session\<close>

text \<open>
  When the \<open>sync\<close> command returns, the teardown is as the docstring of \<open>runner\<close>
  promises: whether the caller's block returned or raised, the calls are \<open>power_on\<close>, the
  constructor, the block, one \<open>sync\<close> with timeout 5 and then one \<open>power_off\<close> of the
  session \<open>power_on\<close> returned, and the block's own outcome is the outcome of the \<open>with\<close>
  statement unless \<open>power_off\<close> raises.
\<close>

lemma runner_tears_down_when_sync_returns:
  assumes "power_on_result env = Inr p" and "truthy p"
    and "command_runner_result env = Inr ()" and "sync_result env = Inr ()"
  shows "fst (runner_scope env) =
           [PowerOn, NewCommandRunner p, Block,
            Logging (LogInfo ''attempting a filesystem sync before power_off''),
            RunnerRun ''sync'' 5, PowerOff p] \<and>
         snd (runner_scope env) = after_finally (block_result env) (power_off_result env)"
  using assms
  by (simp add: runner_scope_def runner_finally_def after_finally_def Let_def split: sum.splits)

text \<open>
  Claim C1 says that on every exit of a runner() scope whose power_on succeeded, one
  best-effort sync is attempted, its failure is ignored, and power_off is then called
  exactly once. The code does not do that when the sync attempt fails. With power_on
  returning a live session, the constructor returning and the sync command raising a
  timeout, the finally block is left at the sync: power_off is never called and the
  timeout leaves the with statement, both when the caller's block returned normally and
  when it raised (its own exception is then lost as well).
\<close>

theorem runner_sync_failure_skips_power_off:
  "runner_scope
     \<lparr>power_on_result = Inr (Proc 1 True), command_runner_result = Inr (),
      block_result = Inr (),
      sync_result = Inl (Exn (OtherException ''TIMEOUT'') ''Timeout exceeded''),
      power_off_result = Inr ()\<rparr> =
     ([PowerOn, NewCommandRunner (Proc 1 True), Block,
       Logging (LogInfo ''attempting a filesystem sync before power_off''),
       RunnerRun ''sync'' 5],
      Inl (Exn (OtherException ''TIMEOUT'') ''Timeout exceeded'')) \<and>
   count_list
     (fst (runner_scope
        \<lparr>power_on_result = Inr (Proc 1 True), command_runner_result = Inr (),
         block_result = Inr (),
         sync_result = Inl (Exn (OtherException ''TIMEOUT'') ''Timeout exceeded''),
         power_off_result = Inr ()\<rparr>))
     (PowerOff (Proc 1 True)) = 0 \<and>
   runner_scope
     \<lparr>power_on_result = Inr (Proc 1 True), command_runner_result = Inr (),
      block_result = Inl (Exn (OtherException ''OperationFailed'') ''test failed''),
      sync_result = Inl (Exn (OtherException ''TIMEOUT'') ''Timeout exceeded''),
      power_off_result = Inr ()\<rparr> =
     ([PowerOn, NewCommandRunner (Proc 1 True), Block,
       Logging (LogInfo ''attempting a filesystem sync before power_off''),
       RunnerRun ''sync'' 5],
      Inl (Exn (OtherException ''TIMEOUT'') ''Timeout exceeded''))"
  by (simp add: runner_scope_def runner_finally_def after_finally_def Let_def)

end
